theory Spec2Isabelle
  imports Complex_Main
begin

section \<open>JavaScript strings and numbers\<close>

text \<open>
  A JavaScript string is a sequence of UTF-16 code units. The model takes the code units
  below 256, so a string is a HOL \<^typ>\<open>string\<close>, \<open>length\<close> is the \<open>.length\<close> of the
  source, and a character is identified with its code. Numbers that are rendered into
  text are integers, rendered in decimal as \<open>String(n)\<close> renders them.
\<close>

definition isWhiteSpace :: "char \<Rightarrow> bool" where
  \<comment> \<open>the code units below 256 that \<open>\s\<close> matches and \<open>trim()\<close> strips:
      TAB, LF, VT, FF, CR, SPACE, NBSP\<close>
  "isWhiteSpace c = (c \<in> set [CHR 0x09, CHR 0x0A, CHR 0x0B, CHR 0x0C, CHR 0x0D, CHR 0x20, CHR 0xA0])"

definition toLowerCase_char :: "char \<Rightarrow> char" where
  \<comment> \<open>ASCII \<open>A..Z\<close> and the Latin-1 capitals \<open>0xC0..0xDE\<close> (without the multiplication sign
      \<open>0xD7\<close>) move up by 32; every other code unit below 256 is kept\<close>
  "toLowerCase_char c =
     (let n = (of_char c :: nat)
      in if (65 \<le> n \<and> n \<le> 90) \<or> (192 \<le> n \<and> n \<le> 222 \<and> n \<noteq> 215) then char_of (n + 32) else c)"

definition toLowerCase :: "string \<Rightarrow> string" where
  "toLowerCase s = map toLowerCase_char s"

definition trim :: "string \<Rightarrow> string" where
  "trim s = rev (dropWhile isWhiteSpace (rev (dropWhile isWhiteSpace s)))"

fun split_on :: "char \<Rightarrow> string \<Rightarrow> string list" where
  \<comment> \<open>\<open>s.split(sep)\<close> for a one-character separator: never the empty array\<close>
  "split_on sep [] = [[]]"
| "split_on sep (c # cs) =
     (if c = sep then [] # split_on sep cs
      else (case split_on sep cs of [] \<Rightarrow> [[c]] | t # ts \<Rightarrow> (c # t) # ts))"

function split_ws :: "string \<Rightarrow> string \<Rightarrow> string list" where
  \<comment> \<open>\<open>s.split(/\s+/)\<close>: the second argument is the rest of the text, the first the
      token read so far; a maximal run of white space is one separator\<close>
  "split_ws tok [] = [tok]"
| "split_ws tok (c # cs) =
     (if isWhiteSpace c then tok # split_ws [] (dropWhile isWhiteSpace cs)
      else split_ws (tok @ [c]) cs)"
  by pat_completeness auto
termination
  by (relation "measure (\<lambda>(tok, cs). length cs)")
     (auto simp: length_dropWhile_le less_Suc_eq_le)

definition digit_char :: "nat \<Rightarrow> char" where
  "digit_char d = ''0123456789'' ! d"

fun string_of_nat :: "nat \<Rightarrow> string" where
  "string_of_nat n =
     (if n < 10 then [digit_char n] else string_of_nat (n div 10) @ [digit_char (n mod 10)])"

declare string_of_nat.simps [simp del]

definition string_of_int :: "int \<Rightarrow> string" where
  "string_of_int i = (if i < 0 then CHR ''-'' # string_of_nat (nat (- i)) else string_of_nat (nat i))"

datatype js_thrown =
    ErrorObj string  \<comment> \<open>an \<open>Error\<close> instance, with its message\<close>
  | NonError         \<comment> \<open>any other thrown value\<close>

section \<open>File intake: data model\<close>

record File =
  f_name :: string
  f_size :: nat
  f_type :: string
  f_lastModified :: nat

record ProcessedFile =
  content :: string
  fileName :: string
  fileSize :: nat
  fileType :: string
  lastModified :: nat
  characterCount :: nat
  wordCount :: nat
  lineCount :: nat
  encoding :: "string option"
  checksum :: "string option"

text \<open>
  An option that is absent, \<open>undefined\<close> or \<open>null\<close> is \<open>None\<close>. The custom validator is a
  function of the file; it returns a truth value or throws.
\<close>

record FileValidationOptions =
  maxSize :: "int option"
  allowedTypes :: "string list option"
  allowedExtensions :: "string list option"
  minSize :: "int option"
  customValidator :: "(File \<Rightarrow> js_thrown + bool) option"

record FileProcessingOptions =
  p_encoding :: "string option"
  includeMetadata :: "bool option"
  calculateChecksum :: "bool option"
  chunkSize :: "nat option"
  onProgress :: bool  \<comment> \<open>whether the callback is supplied\<close>

record FileProcessorError =
  fe_code :: string
  fe_message :: string
  fe_file :: "File option"
  fe_details :: "js_thrown option"

definition DEFAULT_VALIDATION :: FileValidationOptions where
  "DEFAULT_VALIDATION =
     \<lparr>maxSize = Some (10 * 1024 * 1024),
      allowedTypes = Some [''text/plain'', ''text/csv'', ''application/json'', ''text/html'', ''text/markdown''],
      allowedExtensions = Some [''.txt'', ''.csv'', ''.json'', ''.html'', ''.md'', ''.docx'', ''.pdf''],
      minSize = Some 1,
      customValidator = None\<rparr>"

definition DEFAULT_PROCESSING :: FileProcessingOptions where
  "DEFAULT_PROCESSING =
     \<lparr>p_encoding = Some ''utf-8'', includeMetadata = Some True, calculateChecksum = Some False,
      chunkSize = Some (64 * 1024), onProgress = False\<rparr>"

text \<open>
  The object spread \<open>{ ...DEFAULT_VALIDATION, ...options.validation }\<close>: a key the caller
  does not give keeps its default; a key the caller gives takes the caller's value, also
  when that value is \<open>undefined\<close>. The caller's object gives each key as \<open>None\<close> (absent)
  or \<open>Some v\<close> (present, \<open>v\<close> itself \<open>None\<close> when \<open>undefined\<close>).
\<close>

definition overlay :: "'a option \<Rightarrow> 'a option option \<Rightarrow> 'a option" where
  "overlay d u = (case u of None \<Rightarrow> d | Some v \<Rightarrow> v)"

record ValidationPartial =
  given_maxSize :: "int option option"
  given_allowedTypes :: "string list option option"
  given_allowedExtensions :: "string list option option"
  given_minSize :: "int option option"
  given_customValidator :: "(File \<Rightarrow> js_thrown + bool) option option"

definition validationOptions :: "ValidationPartial \<Rightarrow> FileValidationOptions" where
  "validationOptions u =
     \<lparr>maxSize = overlay (maxSize DEFAULT_VALIDATION) (given_maxSize u),
      allowedTypes = overlay (allowedTypes DEFAULT_VALIDATION) (given_allowedTypes u),
      allowedExtensions = overlay (allowedExtensions DEFAULT_VALIDATION) (given_allowedExtensions u),
      minSize = overlay (minSize DEFAULT_VALIDATION) (given_minSize u),
      customValidator = overlay (customValidator DEFAULT_VALIDATION) (given_customValidator u)\<rparr>"

text \<open>
  The resolved options of one hook instance: the merged validation and processing options
  and whether the \<open>onError\<close> and \<open>onSuccess\<close> callbacks are supplied. A callback is an
  observer: its invocations are recorded, in order, in the state.
\<close>

record options =
  validation :: FileValidationOptions
  processing :: FileProcessingOptions
  onError :: bool
  onSuccess :: bool

datatype fp_call =
    OnError FileProcessorError
  | OnSuccess ProcessedFile
  | OnProgress rat

record fp_state =
  isProcessing :: bool
  progress :: rat
  error :: "FileProcessorError option"
  processedFiles :: "ProcessedFile list"
  abortController :: "bool option"  \<comment> \<open>\<open>abortControllerRef.current\<close>: \<open>None\<close> is \<open>null\<close>,
                                         \<open>Some a\<close> a controller whose signal has \<open>aborted = a\<close>\<close>
  calls :: "fp_call list"

definition initial_fp :: fp_state where
  "initial_fp = \<lparr>isProcessing = False, progress = 0, error = None, processedFiles = [],
                  abortController = None, calls = []\<rparr>"

section \<open>File intake: validation\<close>

definition extension_of :: "string \<Rightarrow> string" where
  \<comment> \<open>\<open>'.' + file.name.split('.').pop()?.toLowerCase()\<close>\<close>
  "extension_of nm = CHR ''.'' # toLowerCase (last (split_on CHR ''.'' nm))"

text \<open>
  Each \<open>if\<close> of the \<open>try\<close> block is one check, giving the message of the \<open>Error\<close> it
  throws. A size bound is tested for truthiness first, so the bound \<open>0\<close> is skipped like
  an absent one.
\<close>

definition check_maxSize :: "FileValidationOptions \<Rightarrow> File \<Rightarrow> string option" where
  "check_maxSize v f =
     (case maxSize v of
        None \<Rightarrow> None
      | Some m \<Rightarrow>
          if m \<noteq> 0 \<and> int (f_size f) > m
          then Some (''File size ('' @ string_of_nat (f_size f) @
                     '' bytes) exceeds maximum allowed size ('' @ string_of_int m @ '' bytes)'')
          else None)"

definition check_minSize :: "FileValidationOptions \<Rightarrow> File \<Rightarrow> string option" where
  "check_minSize v f =
     (case minSize v of
        None \<Rightarrow> None
      | Some m \<Rightarrow>
          if m \<noteq> 0 \<and> int (f_size f) < m
          then Some (''File size ('' @ string_of_nat (f_size f) @
                     '' bytes) is below minimum required size ('' @ string_of_int m @ '' bytes)'')
          else None)"

definition check_type :: "FileValidationOptions \<Rightarrow> File \<Rightarrow> string option" where
  "check_type v f =
     (case allowedTypes v of
        None \<Rightarrow> None
      | Some ts \<Rightarrow>
          if f_type f \<notin> set ts
          then Some (''File type '' @ [CHR 0x27] @ f_type f @ [CHR 0x27] @ '' is not allowed'')
          else None)"

definition check_extension :: "FileValidationOptions \<Rightarrow> File \<Rightarrow> string option" where
  "check_extension v f =
     (case allowedExtensions v of
        None \<Rightarrow> None
      | Some es \<Rightarrow>
          if extension_of (f_name f) \<notin> set es
          then Some (''File extension '' @ [CHR 0x27] @ extension_of (f_name f) @ [CHR 0x27] @
                     '' is not allowed'')
          else None)"

definition check_custom :: "FileValidationOptions \<Rightarrow> File \<Rightarrow> js_thrown option" where
  "check_custom v f =
     (case customValidator v of
        None \<Rightarrow> None
      | Some cv \<Rightarrow>
          (case cv f of
             Inl thrown \<Rightarrow> Some thrown
           | Inr isValid \<Rightarrow> if \<not> isValid then Some (ErrorObj ''File failed custom validation'') else None))"

definition validate_try :: "FileValidationOptions \<Rightarrow> File \<Rightarrow> js_thrown option" where
  \<comment> \<open>the \<open>try\<close> block of \<open>validateFile\<close>: the value thrown, or \<open>None\<close> for \<open>return true\<close>\<close>
  "validate_try v f =
     (case check_maxSize v f of
        Some m \<Rightarrow> Some (ErrorObj m)
      | None \<Rightarrow>
          (case check_minSize v f of
             Some m \<Rightarrow> Some (ErrorObj m)
           | None \<Rightarrow>
               (case check_type v f of
                  Some m \<Rightarrow> Some (ErrorObj m)
                | None \<Rightarrow>
                    (case check_extension v f of
                       Some m \<Rightarrow> Some (ErrorObj m)
                     | None \<Rightarrow> check_custom v f))))"

definition notify_error :: "options \<Rightarrow> FileProcessorError \<Rightarrow> fp_state \<Rightarrow> fp_state" where
  \<comment> \<open>\<open>setError(fileError); options.onError?.(fileError)\<close>\<close>
  "notify_error opts e s =
     s\<lparr>error := Some e, calls := (if onError opts then calls s @ [OnError e] else calls s)\<rparr>"

definition validateFile :: "options \<Rightarrow> File \<Rightarrow> fp_state \<Rightarrow> bool \<times> fp_state" where
  "validateFile opts f s =
     (case validate_try (validation opts) f of
        None \<Rightarrow> (True, s)
      | Some thrown \<Rightarrow>
          (False,
           notify_error opts
             \<lparr>fe_code = ''VALIDATION_ERROR'',
              fe_message = (case thrown of ErrorObj m \<Rightarrow> m | NonError \<Rightarrow> ''Validation failed''),
              fe_file = Some f,
              fe_details = None\<rparr> s))"

section \<open>File intake: metrics\<close>

definition countWords :: "string \<Rightarrow> nat" where
  \<comment> \<open>\<open>text.trim().split(/\s+/).filter(word => word.length > 0).length\<close>\<close>
  "countWords text = length (filter (\<lambda>word. length word > 0) (split_ws [] (trim text)))"

definition countLines :: "string \<Rightarrow> nat" where
  \<comment> \<open>\<open>text.split('\n').length\<close>\<close>
  "countLines text = length (split_on CHR 0x0A text)"

definition hex_digit :: "nat \<Rightarrow> char" where
  "hex_digit d = ''0123456789abcdef'' ! d"

definition hex_byte :: "nat \<Rightarrow> string" where
  \<comment> \<open>\<open>b.toString(16).padStart(2, '0')\<close> for a byte \<open>b\<close>\<close>
  "hex_byte b = [hex_digit (b div 16), hex_digit (b mod 16)]"

definition utf8_encode_char :: "char \<Rightarrow> nat list" where
  \<comment> \<open>UTF-8 of a code unit below 256: one byte below 128, two bytes from 128 on\<close>
  "utf8_encode_char c =
     (let n = (of_char c :: nat)
      in if n < 128 then [n] else [192 + n div 64, 128 + n mod 64])"

definition utf8_encode :: "string \<Rightarrow> nat list" where
  "utf8_encode s = concat (map utf8_encode_char s)"

text \<open>
  What the host does during one call of \<open>processFile\<close>: the progress events of the reader
  (each with its percentage \<open>(loaded / total) * 100\<close>), the text the reader loads (\<open>None\<close>
  when it fires \<open>error\<close>), whether \<open>abortProcessing\<close> runs while the read is pending, and
  the platform's SHA-256 on bytes (which may throw).
\<close>

record host_io =
  readProgress :: "rat list"
  readResult :: "string option"
  abortRequested :: bool
  digest :: "nat list \<Rightarrow> js_thrown + nat list"

definition calculateChecksum_of :: "host_io \<Rightarrow> string \<Rightarrow> js_thrown + string" where
  \<comment> \<open>\<open>calculateChecksum\<close>: the digest of the UTF-8 bytes, each byte as two hex digits\<close>
  "calculateChecksum_of io text =
     (case digest io (utf8_encode text) of
        Inl thrown \<Rightarrow> Inl thrown
      | Inr hashArray \<Rightarrow> Inr (concat (map hex_byte hashArray)))"

section \<open>File intake: processing\<close>

definition on_read_progress :: "options \<Rightarrow> rat \<Rightarrow> fp_state \<Rightarrow> fp_state" where
  \<comment> \<open>\<open>reader.onprogress\<close>: \<open>setProgress(progress); processingOptions.onProgress?.(progress)\<close>\<close>
  "on_read_progress opts p s =
     s\<lparr>progress := p,
       calls := (if onProgress (processing opts) then calls s @ [OnProgress p] else calls s)\<rparr>"

definition abortProcessing :: "fp_state \<Rightarrow> fp_state" where
  "abortProcessing s =
     (case abortController s of
        None \<Rightarrow> s
      | Some a \<Rightarrow> s\<lparr>abortController := Some True, isProcessing := False, progress := 0\<rparr>)"

definition processFile_try ::
  "options \<Rightarrow> host_io \<Rightarrow> File \<Rightarrow> fp_state \<Rightarrow> (js_thrown + ProcessedFile option) \<times> fp_state" where
  \<comment> \<open>the \<open>try\<close> block of \<open>processFile\<close>: \<open>Inl\<close> is the value thrown, \<open>Inr\<close> the value
      returned (\<open>None\<close> is \<open>null\<close>), each with the state reached\<close>
  "processFile_try opts io f s0 =
     (let s1 = s0\<lparr>abortController := Some False\<rparr>;
          (isValid, s2) = validateFile opts f s1
      in if \<not> isValid then (Inr None, s2)
         else
           (let s3 = fold (on_read_progress opts) (readProgress io) s2;
                s4 = (if abortRequested io then abortProcessing s3 else s3)
            in case readResult io of
                 None \<Rightarrow> (Inl (ErrorObj ''Failed to read file''), s4)
               | Some text \<Rightarrow>
                   if abortController s4 = Some True
                   then (Inl (ErrorObj ''Operation was aborted''), s4)
                   else
                     (case (if calculateChecksum (processing opts) = Some True
                            then map_sum id Some (calculateChecksum_of io text)
                            else Inr None) of
                        Inl thrown \<Rightarrow> (Inl thrown, s4)
                      | Inr digest_hex \<Rightarrow>
                          (let processedFile =
                                 \<lparr>content = text,
                                  fileName = f_name f,
                                  fileSize = f_size f,
                                  fileType = f_type f,
                                  lastModified = f_lastModified f,
                                  characterCount = length text,
                                  wordCount = countWords text,
                                  lineCount = countLines text,
                                  encoding = p_encoding (processing opts),
                                  checksum = digest_hex\<rparr>
                           in (Inr (Some processedFile),
                               s4\<lparr>progress := 100,
                                  processedFiles := processedFiles s4 @ [processedFile],
                                  calls := (if onSuccess opts then calls s4 @ [OnSuccess processedFile]
                                            else calls s4)\<rparr>)))))"

definition processFile ::
  "options \<Rightarrow> host_io \<Rightarrow> File \<Rightarrow> fp_state \<Rightarrow> ProcessedFile option \<times> fp_state" where
  "processFile opts io f s0 =
     (let s1 = s0\<lparr>isProcessing := True, progress := 0, error := None\<rparr>;
          (outcome, s2) = processFile_try opts io f s1;
          (result, s3) =
            (case outcome of
               Inr returned \<Rightarrow> (returned, s2)
             | Inl thrown \<Rightarrow>
                 (None,
                  notify_error opts
                    \<lparr>fe_code = ''PROCESSING_ERROR'',
                     fe_message = (case thrown of ErrorObj m \<Rightarrow> m | NonError \<Rightarrow> ''Processing failed''),
                     fe_file = Some f,
                     fe_details = Some thrown\<rparr> s2))
      in (result, s3\<lparr>isProcessing := False, abortController := None\<rparr>))"






section \<open>JavaScript values\<close>

text \<open>
  The values a report is made from. A number is an integer. A \<open>Date\<close> is given by the two
  texts the source can obtain from it: \<open>toISOString()\<close> (which \<open>toJSON()\<close> returns) and
  \<open>toString()\<close>. An object is the list of its own enumerable properties in the order
  \<open>Object.keys\<close> enumerates them; properties inherited from a prototype are not modelled.
\<close>

datatype jsval =
    JUndefined
  | JNull
  | JBool bool
  | JNum int
  | JStr string
  | JDate string string
  | JArr "jsval list"
  | JObj "(string \<times> jsval) list"

definition NL :: string where "NL = [CHR 0x0A]"
definition SQ :: string where "SQ = [CHR 0x27]"
definition DQ :: string where "DQ = [CHR 0x22]"

fun join :: "string \<Rightarrow> string list \<Rightarrow> string" where
  \<comment> \<open>\<open>parts.join(sep)\<close> on an array of strings\<close>
  "join sep [] = []"
| "join sep [x] = x"
| "join sep (x # y # ys) = x @ sep @ join sep (y # ys)"

fun to_str :: "jsval \<Rightarrow> string" where
  \<comment> \<open>\<open>String(v)\<close>, also the conversion of a template literal\<close>
  "to_str JUndefined = ''undefined''"
| "to_str JNull = ''null''"
| "to_str (JBool b) = (if b then ''true'' else ''false'')"
| "to_str (JNum n) = string_of_int n"
| "to_str (JStr s) = s"
| "to_str (JDate isoText shownText) = shownText"
| "to_str (JArr xs) = join '','' (map (\<lambda>x. if x = JUndefined \<or> x = JNull then [] else to_str x) xs)"
| "to_str (JObj kvs) = ''[object Object]''"

fun truthy :: "jsval \<Rightarrow> bool" where
  "truthy JUndefined = False"
| "truthy JNull = False"
| "truthy (JBool b) = b"
| "truthy (JNum n) = (n \<noteq> 0)"
| "truthy (JStr s) = (s \<noteq> [])"
| "truthy v = True"

definition is_digit :: "char \<Rightarrow> bool" where
  "is_digit c = (c \<in> set ''0123456789'')"

definition digit_val :: "char \<Rightarrow> nat" where
  "digit_val c = of_char c - 48"

definition nat_of_digits :: "string \<Rightarrow> nat" where
  "nat_of_digits ds = foldl (\<lambda>n c. 10 * n + digit_val c) 0 ds"

definition array_index :: "string \<Rightarrow> nat option" where
  \<comment> \<open>a property key that is an array index: the decimal rendering of a number below
      \<open>2^32 - 1 = 4294967295\<close>\<close>
  "array_index k =
     (if list_all is_digit k \<and> string_of_nat (nat_of_digits k) = k \<and> nat_of_digits k < 4294967295
      then Some (nat_of_digits k) else None)"

definition Object_keys :: "jsval \<Rightarrow> js_thrown + string list" where
  "Object_keys v =
     (case v of
        JUndefined \<Rightarrow> Inl (ErrorObj ''Cannot convert undefined or null to object'')
      | JNull \<Rightarrow> Inl (ErrorObj ''Cannot convert undefined or null to object'')
      | JStr s \<Rightarrow> Inr (map string_of_nat [0..<length s])
      | JArr xs \<Rightarrow> Inr (map string_of_nat [0..<length xs])
      | JObj kvs \<Rightarrow> Inr (map fst kvs)
      | _ \<Rightarrow> Inr [])"

definition get_own :: "jsval \<Rightarrow> string \<Rightarrow> jsval" where
  \<comment> \<open>\<open>v[key]\<close> for a value \<open>v\<close> that is neither \<open>undefined\<close> nor \<open>null\<close>\<close>
  "get_own v key =
     (case v of
        JObj kvs \<Rightarrow> (case map_of kvs key of Some x \<Rightarrow> x | None \<Rightarrow> JUndefined)
      | JArr xs \<Rightarrow>
          (case array_index key of
             Some i \<Rightarrow> if i < length xs then xs ! i else JUndefined
           | None \<Rightarrow> if key = ''length'' then JNum (int (length xs)) else JUndefined)
      | JStr s \<Rightarrow>
          (case array_index key of
             Some i \<Rightarrow> if i < length s then JStr [s ! i] else JUndefined
           | None \<Rightarrow> if key = ''length'' then JNum (int (length s)) else JUndefined)
      | _ \<Rightarrow> JUndefined)"

definition get_prop :: "jsval \<Rightarrow> string \<Rightarrow> js_thrown + jsval" where
  \<comment> \<open>\<open>v[key]\<close>: reading a property of \<open>undefined\<close> or \<open>null\<close> throws a \<open>TypeError\<close>\<close>
  "get_prop v key =
     (if v = JUndefined \<or> v = JNull
      then Inl (ErrorObj (''Cannot read properties of '' @ to_str v))
      else Inr (get_own v key))"

fun all_or_thrown :: "('e + 'a) list \<Rightarrow> 'e + 'a list" where
  \<comment> \<open>the results of a \<open>map\<close> whose callback may throw: the first thrown value ends it\<close>
  "all_or_thrown [] = Inr []"
| "all_or_thrown (Inl e # rs) = Inl e"
| "all_or_thrown (Inr x # rs) = (case all_or_thrown rs of Inl e \<Rightarrow> Inl e | Inr xs \<Rightarrow> Inr (x # xs))"

section \<open>JSON text\<close>

definition json_escape :: "char \<Rightarrow> string" where
  \<comment> \<open>one code unit inside \<open>QuoteJSONString\<close>\<close>
  "json_escape c =
     (if c = CHR 0x08 then [CHR 0x5C, CHR ''b'']
      else if c = CHR 0x09 then [CHR 0x5C, CHR ''t'']
      else if c = CHR 0x0A then [CHR 0x5C, CHR ''n'']
      else if c = CHR 0x0C then [CHR 0x5C, CHR ''f'']
      else if c = CHR 0x0D then [CHR 0x5C, CHR ''r'']
      else if c = CHR 0x22 then [CHR 0x5C, CHR 0x22]
      else if c = CHR 0x5C then [CHR 0x5C, CHR 0x5C]
      else if (of_char c :: nat) < 32
      then [CHR 0x5C, CHR ''u'', CHR ''0'', CHR ''0'',
            hex_digit ((of_char c :: nat) div 16), hex_digit ((of_char c :: nat) mod 16)]
      else [c])"

definition QuoteJSONString :: "string \<Rightarrow> string" where
  "QuoteJSONString s = DQ @ concat (map json_escape s) @ DQ"

definition gap :: string where
  \<comment> \<open>the indentation unit of \<open>JSON.stringify(value, null, 2)\<close>\<close>
  "gap = ''  ''"

fun stringify :: "string \<Rightarrow> jsval \<Rightarrow> string option"
  and stringify_elements :: "string \<Rightarrow> jsval list \<Rightarrow> string list"
  and stringify_members :: "string \<Rightarrow> (string \<times> jsval) list \<Rightarrow> string list" where
  \<comment> \<open>\<open>SerializeJSONProperty\<close> at the indentation given; \<open>None\<close> is \<open>undefined\<close>\<close>
  "stringify stepback JUndefined = None"
| "stringify stepback JNull = Some ''null''"
| "stringify stepback (JBool b) = Some (if b then ''true'' else ''false'')"
| "stringify stepback (JNum n) = Some (string_of_int n)"
| "stringify stepback (JStr s) = Some (QuoteJSONString s)"
| "stringify stepback (JDate isoText shownText) = Some (QuoteJSONString isoText)"
| "stringify stepback (JArr xs) =
     (let indent = stepback @ gap; partial = stringify_elements indent xs
      in Some (if partial = [] then ''[]''
               else ''['' @ NL @ indent @ join ('','' @ NL @ indent) partial @ NL @ stepback @ '']''))"
| "stringify stepback (JObj kvs) =
     (let indent = stepback @ gap; partial = stringify_members indent kvs
      in Some (if partial = [] then ''{}''
               else ''{'' @ NL @ indent @ join ('','' @ NL @ indent) partial @ NL @ stepback @ ''}''))"
| "stringify_elements indent [] = []"
| "stringify_elements indent (x # xs) =
     (case stringify indent x of None \<Rightarrow> ''null'' | Some strP \<Rightarrow> strP) # stringify_elements indent xs"
| "stringify_members indent [] = []"
| "stringify_members indent ((k, v) # kvs) =
     (case stringify indent v of
        None \<Rightarrow> []
      | Some strP \<Rightarrow> [QuoteJSONString k @ '': '' @ strP]) @ stringify_members indent kvs"

definition JSON_stringify :: "jsval \<Rightarrow> string option" where
  \<comment> \<open>\<open>JSON.stringify(value, null, 2)\<close>\<close>
  "JSON_stringify v = stringify [] v"

definition JSON_stringify_text :: "jsval \<Rightarrow> string" where
  \<comment> \<open>the result where the source uses it as text: \<open>undefined\<close> reads \<open>undefined\<close>\<close>
  "JSON_stringify_text v = (case JSON_stringify v of None \<Rightarrow> ''undefined'' | Some t \<Rightarrow> t)"

section \<open>Report generation: data model\<close>

record ReportMetadata =
  m_title :: string
  m_description :: "string option"
  m_author :: "string option"
  m_createdAt :: "string \<times> string"  \<comment> \<open>a \<open>Date\<close>: its \<open>toISOString()\<close> and its \<open>toString()\<close>\<close>
  m_version :: "string option"
  m_tags :: "string list option"

definition metadata_value :: "ReportMetadata \<Rightarrow> jsval" where
  \<comment> \<open>the metadata object as a value, its keys in the order of the interface\<close>
  "metadata_value m =
     JObj ([(''title'', JStr (m_title m))] @
           (case m_description m of Some d \<Rightarrow> [(''description'', JStr d)] | None \<Rightarrow> []) @
           (case m_author m of Some a \<Rightarrow> [(''author'', JStr a)] | None \<Rightarrow> []) @
           [(''createdAt'', JDate (fst (m_createdAt m)) (snd (m_createdAt m)))] @
           (case m_version m of Some v \<Rightarrow> [(''version'', JStr v)] | None \<Rightarrow> []) @
           (case m_tags m of Some ts \<Rightarrow> [(''tags'', JArr (map JStr ts))] | None \<Rightarrow> []))"

record ReportStyling =
  theme :: "string option"
  primaryColor :: "string option"
  fontFamily :: "string option"
  fontSize :: "string option"
  customCSS :: "string option"

record StylingPartial =
  given_theme :: "string option option"
  given_primaryColor :: "string option option"
  given_fontFamily :: "string option option"
  given_fontSize :: "string option option"
  given_customCSS :: "string option option"

definition DEFAULT_STYLING :: ReportStyling where
  "DEFAULT_STYLING =
     \<lparr>theme = Some ''light'', primaryColor = Some ''#3b82f6'',
      fontFamily = Some ''system-ui, -apple-system, sans-serif'', fontSize = Some ''14px'',
      customCSS = None\<rparr>"

definition merged_styling :: "StylingPartial option \<Rightarrow> ReportStyling" where
  \<comment> \<open>\<open>{ ...DEFAULT_STYLING, ...options.styling }\<close>\<close>
  "merged_styling given =
     (case given of
        None \<Rightarrow> DEFAULT_STYLING
      | Some u \<Rightarrow>
          \<lparr>theme = overlay (theme DEFAULT_STYLING) (given_theme u),
           primaryColor = overlay (primaryColor DEFAULT_STYLING) (given_primaryColor u),
           fontFamily = overlay (fontFamily DEFAULT_STYLING) (given_fontFamily u),
           fontSize = overlay (fontSize DEFAULT_STYLING) (given_fontSize u),
           customCSS = overlay (customCSS DEFAULT_STYLING) (given_customCSS u)\<rparr>)"

text \<open>The format tag is the string the caller passes; the \<open>switch\<close> compares it as a string.\<close>

record ReportOptions =
  filename :: "string option"
  format :: string
  metadata :: "ReportMetadata option"
  template :: "string option"
  styling :: "StylingPartial option"
  compression :: "bool option"
  includeTimestamp :: "bool option"

record Blob =
  blob_text :: string
  blob_type :: string

definition blob_size :: "Blob \<Rightarrow> nat" where
  \<comment> \<open>\<open>blob.size\<close>: the number of bytes of the UTF-8 encoded text\<close>
  "blob_size b = length (utf8_encode (blob_text b))"

record GeneratedReport =
  blob :: Blob
  report_filename :: string
  report_size :: nat
  report_format :: string
  downloadUrl :: string

record ReportGeneratorError =
  re_code :: string
  re_message :: string
  re_details :: "js_thrown option"

text \<open>
  What the host gives during one call of \<open>generateReport\<close>: the texts of \<open>new Date()\<close>
  where the formatter and \<open>generateFilename\<close> read the clock, and the URL that
  \<open>URL.createObjectURL\<close> returns. What the code does to the host is recorded, in order,
  in the state: the click on the download link, the revocation scheduled with
  \<open>setTimeout\<close>, and each call of \<open>URL.revokeObjectURL\<close>.
\<close>

record rg_env =
  now_iso :: string
  now_locale :: string
  filename_iso :: string
  object_url :: string

datatype host_effect =
    Download string string   \<comment> \<open>file name and URL of the link clicked\<close>
  | RevokeAfter nat string   \<comment> \<open>delay in milliseconds and URL\<close>
  | Revoke string

record rg_state =
  isGenerating :: bool
  rg_progress :: rat
  rg_error :: "ReportGeneratorError option"
  generatedReports :: "GeneratedReport list"
  effects :: "host_effect list"

definition initial_rg :: rg_state where
  "initial_rg = \<lparr>isGenerating = False, rg_progress = 0, rg_error = None, generatedReports = [],
                  effects = []\<rparr>"

section \<open>Report generation: formatters\<close>

definition generateFilename :: "rg_env \<Rightarrow> ReportOptions \<Rightarrow> string" where
  "generateFilename env options =
     (let filename0 = (case filename options of
                         None \<Rightarrow> ''report''
                       | Some n \<Rightarrow> if n = [] then ''report'' else n);
          replaced = map (\<lambda>c. if c = CHR '':'' \<or> c = CHR ''.'' then CHR ''-'' else c) (filename_iso env);
          timestamp = take (length replaced - 5) replaced;
          filename1 = (if includeTimestamp options \<noteq> Some False
                       then filename0 @ ''_'' @ timestamp else filename0)
      in filename1 @ ''.'' @ format options)"

definition generateJSON :: "rg_env \<Rightarrow> jsval \<Rightarrow> ReportOptions \<Rightarrow> string" where
  "generateJSON env data options =
     JSON_stringify_text
       (JObj [(''metadata'', (case metadata options of None \<Rightarrow> JUndefined | Some m \<Rightarrow> metadata_value m)),
              (''data'', data),
              (''generatedAt'', JStr (now_iso env))])"

fun uniq_from :: "'a list \<Rightarrow> 'a list \<Rightarrow> 'a list" where
  \<comment> \<open>adding the elements to a \<open>Set\<close> that already holds \<open>seen\<close>, in insertion order\<close>
  "uniq_from seen [] = seen"
| "uniq_from seen (x # xs) = uniq_from (if x \<in> set seen then seen else seen @ [x]) xs"

definition uniq :: "'a list \<Rightarrow> 'a list" where
  \<comment> \<open>\<open>Array.from(new Set(xs))\<close>\<close>
  "uniq xs = uniq_from [] xs"

definition csv_cell :: "jsval \<Rightarrow> string \<Rightarrow> string" where
  "csv_cell item key =
     (let v = get_own item key
      in if v = JNull \<or> v = JUndefined then []
         else
           (let stringValue = to_str v
            in if CHR '','' \<in> set stringValue \<or> CHR 0x22 \<in> set stringValue \<or> CHR 0x0A \<in> set stringValue
               then DQ @ concat (map (\<lambda>c. if c = CHR 0x22 then DQ @ DQ else [c]) stringValue) @ DQ
               else stringValue))"

definition generateCSV :: "jsval \<Rightarrow> ReportOptions \<Rightarrow> js_thrown + string" where
  \<comment> \<open>\<open>Object.keys\<close> throws on an element that is \<open>undefined\<close> or \<open>null\<close>, before any row
      is made\<close>
  "generateCSV data options =
     (case data of
        JArr items \<Rightarrow>
          if items = [] then Inr []
          else
            (case all_or_thrown (map Object_keys items) of
               Inl thrown \<Rightarrow> Inl thrown
             | Inr keyLists \<Rightarrow>
                 (let allKeys = uniq (concat keyLists);
                      csvRows = [join '','' allKeys] @
                                map (\<lambda>item. join '','' (map (csv_cell item) allKeys)) items
                  in Inr (join NL csvRows)))
      | _ \<Rightarrow> Inr [])"

definition meta_field :: "(ReportMetadata \<Rightarrow> string option) \<Rightarrow> ReportMetadata option \<Rightarrow> string option" where
  \<comment> \<open>\<open>metadata?.field\<close> where the source tests it for truthiness: the text, when it is
      there and not empty\<close>
  "meta_field field m =
     (case m of
        None \<Rightarrow> None
      | Some md \<Rightarrow> (case field md of None \<Rightarrow> None | Some s \<Rightarrow> if s = [] then None else Some s))"

definition shown :: "string option \<Rightarrow> string" where
  \<comment> \<open>a string that may be \<open>undefined\<close>, inside a template literal\<close>
  "shown s = (case s of None \<Rightarrow> ''undefined'' | Some x \<Rightarrow> x)"

definition optional_line :: "string \<Rightarrow> string option \<Rightarrow> string" where
  "optional_line opening field = (case field of None \<Rightarrow> [] | Some s \<Rightarrow> opening @ s @ ''</p>'')"

definition html_css :: "ReportStyling \<Rightarrow> string" where
  "html_css st =
     NL @
     ''      body {'' @ NL @
     ''        font-family: '' @ shown (fontFamily st) @ '';'' @ NL @
     ''        font-size: '' @ shown (fontSize st) @ '';'' @ NL @
     ''        line-height: 1.6;'' @ NL @
     ''        color: '' @ (if theme st = Some ''dark'' then ''#e5e7eb'' else ''#374151'') @ '';'' @ NL @
     ''        background-color: '' @ (if theme st = Some ''dark'' then ''#1f2937'' else ''#ffffff'') @ '';'' @ NL @
     ''        margin: 0;'' @ NL @
     ''        padding: 20px;'' @ NL @
     ''      }'' @ NL @
     ''      '' @ NL @
     ''      .report-container {'' @ NL @
     ''        max-width: 1200px;'' @ NL @
     ''        margin: 0 auto;'' @ NL @
     ''        background: '' @ (if theme st = Some ''dark'' then ''#374151'' else ''#f9fafb'') @ '';'' @ NL @
     ''        border-radius: 8px;'' @ NL @
     ''        padding: 30px;'' @ NL @
     ''        box-shadow: 0 4px 6px rgba(0, 0, 0, 0.1);'' @ NL @
     ''      }'' @ NL @
     ''      '' @ NL @
     ''      .report-header {'' @ NL @
     ''        border-bottom: 3px solid '' @ shown (primaryColor st) @ '';'' @ NL @
     ''        padding-bottom: 20px;'' @ NL @
     ''        margin-bottom: 30px;'' @ NL @
     ''      }'' @ NL @
     ''      '' @ NL @
     ''      .report-title {'' @ NL @
     ''        color: '' @ shown (primaryColor st) @ '';'' @ NL @
     ''        font-size: 2.5em;'' @ NL @
     ''        margin: 0 0 10px 0;'' @ NL @
     ''        font-weight: bold;'' @ NL @
     ''      }'' @ NL @
     ''      '' @ NL @
     ''      .report-meta {'' @ NL @
     ''        color: '' @ (if theme st = Some ''dark'' then ''#9ca3af'' else ''#6b7280'') @ '';'' @ NL @
     ''        font-size: 0.9em;'' @ NL @
     ''      }'' @ NL @
     ''      '' @ NL @
     ''      .data-section {'' @ NL @
     ''        margin: 20px 0;'' @ NL @
     ''      }'' @ NL @
     ''      '' @ NL @
     ''      .data-table {'' @ NL @
     ''        width: 100%;'' @ NL @
     ''        border-collapse: collapse;'' @ NL @
     ''        margin: 20px 0;'' @ NL @
     ''      }'' @ NL @
     ''      '' @ NL @
     ''      .data-table th,'' @ NL @
     ''      .data-table td {'' @ NL @
     ''        border: 1px solid '' @ (if theme st = Some ''dark'' then ''#4b5563'' else ''#d1d5db'') @ '';'' @ NL @
     ''        padding: 12px;'' @ NL @
     ''        text-align: left;'' @ NL @
     ''      }'' @ NL @
     ''      '' @ NL @
     ''      .data-table th {'' @ NL @
     ''        background-color: '' @ shown (primaryColor st) @ '';'' @ NL @
     ''        color: white;'' @ NL @
     ''        font-weight: bold;'' @ NL @
     ''      }'' @ NL @
     ''      '' @ NL @
     ''      .data-table tr:nth-child(even) {'' @ NL @
     ''        background-color: '' @ (if theme st = Some ''dark'' then ''#4b5563'' else ''#f3f4f6'') @ '';'' @ NL @
     ''      }'' @ NL @
     ''      '' @ NL @
     ''      .json-container {'' @ NL @
     ''        background-color: '' @ (if theme st = Some ''dark'' then ''#1f2937'' else ''#f8f9fa'') @ '';'' @ NL @
     ''        border: 1px solid '' @ (if theme st = Some ''dark'' then ''#4b5563'' else ''#e5e7eb'') @ '';'' @ NL @
     ''        border-radius: 4px;'' @ NL @
     ''        padding: 15px;'' @ NL @
     ''        overflow-x: auto;'' @ NL @
     ''      }'' @ NL @
     ''      '' @ NL @
     ''      .json-content {'' @ NL @
     ''        font-family: '' @ SQ @ ''Monaco'' @ SQ @ '', '' @ SQ @ ''Menlo'' @ SQ @ '', '' @ SQ @ ''Ubuntu Mono'' @ SQ @ '', monospace;'' @ NL @
     ''        font-size: 0.9em;'' @ NL @
     ''        white-space: pre-wrap;'' @ NL @
     ''        margin: 0;'' @ NL @
     ''      }'' @ NL @
     ''      '' @ NL @
     ''      '' @ (case customCSS st of Some c \<Rightarrow> c | None \<Rightarrow> []) @ NL @
     ''    ''"

definition typeof_object :: "jsval \<Rightarrow> bool" where
  \<comment> \<open>\<open>typeof v === 'object'\<close>\<close>
  "typeof_object v = (case v of JNull \<Rightarrow> True | JDate a b \<Rightarrow> True | JArr xs \<Rightarrow> True | JObj kvs \<Rightarrow> True | _ \<Rightarrow> False)"

definition json_block :: "jsval \<Rightarrow> string" where
  "json_block data =
     NL @
     ''        <div class='' @ DQ @ ''json-container'' @ DQ @ ''>'' @ NL @
     ''          <pre class='' @ DQ @ ''json-content'' @ DQ @ ''>'' @ JSON_stringify_text data @ ''</pre>'' @ NL @
     ''        </div>'' @ NL @
     ''      ''"

definition table_cell :: "jsval \<Rightarrow> string \<Rightarrow> js_thrown + string" where
  \<comment> \<open>\<open><td>${item[key] || ''}</td>\<close>\<close>
  "table_cell item key =
     (case get_prop item key of
        Inl thrown \<Rightarrow> Inl thrown
      | Inr v \<Rightarrow> Inr (''<td>'' @ (if truthy v then to_str v else []) @ ''</td>''))"

definition table_row :: "string list \<Rightarrow> jsval \<Rightarrow> js_thrown + string" where
  "table_row keys item =
     (case all_or_thrown (map (table_cell item) keys) of
        Inl thrown \<Rightarrow> Inl thrown
      | Inr cells \<Rightarrow> Inr (''<tr>'' @ concat cells @ ''</tr>''))"

definition renderDataAsTable :: "jsval \<Rightarrow> js_thrown + string" where
  "renderDataAsTable data =
     (case data of
        JArr items \<Rightarrow>
          (case items of
             [] \<Rightarrow> Inr (json_block data)
           | first # others \<Rightarrow>
               if typeof_object first
               then
                 (case Object_keys first of
                    Inl thrown \<Rightarrow> Inl thrown
                  | Inr keys \<Rightarrow>
                      (let headerRow = concat (map (\<lambda>key. ''<th>'' @ key @ ''</th>'') keys)
                       in case all_or_thrown (map (table_row keys) items) of
                            Inl thrown \<Rightarrow> Inl thrown
                          | Inr rows \<Rightarrow>
                              (let dataRows = concat rows
                               in Inr (NL @
           ''          <table class='' @ DQ @ ''data-table'' @ DQ @ ''>'' @ NL @
           ''            <thead><tr>'' @ headerRow @ ''</tr></thead>'' @ NL @
           ''            <tbody>'' @ dataRows @ ''</tbody>'' @ NL @
           ''          </table>'' @ NL @
           ''        ''))))
               else Inr (json_block data))
      | _ \<Rightarrow> Inr (json_block data))"

definition generateHTML :: "rg_env \<Rightarrow> jsval \<Rightarrow> ReportOptions \<Rightarrow> js_thrown + string" where
  "generateHTML env data options =
     (let st = merged_styling (styling options);
          meta = metadata options;
          css = html_css st;
          title_or_Report = (case meta of
                               None \<Rightarrow> ''Report''
                             | Some m \<Rightarrow> if m_title m = [] then ''Report'' else m_title m)
      in case renderDataAsTable data of
           Inl thrown \<Rightarrow> Inl thrown
         | Inr table \<Rightarrow> Inr (
     NL @
     ''      <!DOCTYPE html>'' @ NL @
     ''      <html lang='' @ DQ @ ''en'' @ DQ @ ''>'' @ NL @
     ''      <head>'' @ NL @
     ''        <meta charset='' @ DQ @ ''UTF-8'' @ DQ @ ''>'' @ NL @
     ''        <meta name='' @ DQ @ ''viewport'' @ DQ @ '' content='' @ DQ @ ''width=device-width, initial-scale=1.0'' @ DQ @ ''>'' @ NL @
     ''        <title>'' @ title_or_Report @ ''</title>'' @ NL @
     ''        <style>'' @ css @ ''</style>'' @ NL @
     ''      </head>'' @ NL @
     ''      <body>'' @ NL @
     ''        <div class='' @ DQ @ ''report-container'' @ DQ @ ''>'' @ NL @
     ''          <div class='' @ DQ @ ''report-header'' @ DQ @ ''>'' @ NL @
     ''            <h1 class='' @ DQ @ ''report-title'' @ DQ @ ''>'' @ title_or_Report @ ''</h1>'' @ NL @
     ''            <div class='' @ DQ @ ''report-meta'' @ DQ @ ''>'' @ NL @
     ''              '' @ optional_line (''<p>'') (meta_field m_description meta) @ NL @
     ''              <p>Generated on: '' @ now_locale env @ ''</p>'' @ NL @
     ''              '' @ optional_line (''<p>Author: '') (meta_field m_author meta) @ NL @
     ''              '' @ optional_line (''<p>Version: '') (meta_field m_version meta) @ NL @
     ''            </div>'' @ NL @
     ''          </div>'' @ NL @
     ''          '' @ NL @
     ''          <div class='' @ DQ @ ''data-section'' @ DQ @ ''>'' @ NL @
     ''            '' @ table @ NL @
     ''          </div>'' @ NL @
     ''        </div>'' @ NL @
     ''      </body>'' @ NL @
     ''      </html>'' @ NL @
     ''    ''))"

definition Object_entries :: "jsval \<Rightarrow> js_thrown + (string \<times> jsval) list" where
  "Object_entries v =
     (case Object_keys v of
        Inl thrown \<Rightarrow> Inl thrown
      | Inr keys \<Rightarrow> Inr (map (\<lambda>key. (key, get_own v key)) keys))"

definition record_text :: "nat \<Rightarrow> jsval \<Rightarrow> js_thrown + string" where
  \<comment> \<open>the text of one element of an array, at its index\<close>
  "record_text index item =
     (case Object_entries item of
        Inl thrown \<Rightarrow> Inl thrown
      | Inr entries \<Rightarrow>
          Inr (''Record '' @ string_of_nat (index + 1) @ '':'' @ NL @
               concat (map (\<lambda>(key, v). ''  '' @ key @ '': '' @ to_str v @ NL) entries) @ NL))"

definition generateText :: "rg_env \<Rightarrow> jsval \<Rightarrow> ReportOptions \<Rightarrow> js_thrown + string" where
  "generateText env data options =
     (let meta = metadata options;
          heading = (case meta of
                       None \<Rightarrow> []
                     | Some m \<Rightarrow>
                         if m_title m = [] then []
                         else m_title m @ NL @ replicate (length (m_title m)) (CHR ''='') @ NL @ NL);
          description = (case meta_field m_description meta of None \<Rightarrow> [] | Some d \<Rightarrow> d @ NL @ NL);
          generated = ''Generated on: '' @ now_locale env @ NL;
          author = (case meta_field m_author meta of None \<Rightarrow> [] | Some a \<Rightarrow> ''Author: '' @ a @ NL);
          preamble = heading @ description @ generated @ author @ NL
      in case data of
           JArr items \<Rightarrow>
             (case all_or_thrown (map (\<lambda>index. record_text index (items ! index)) [0..<length items]) of
                Inl thrown \<Rightarrow> Inl thrown
              | Inr records \<Rightarrow> Inr (preamble @ concat records))
         | _ \<Rightarrow> Inr (preamble @ JSON_stringify_text data))"

section \<open>Report generation: packaging and registry\<close>

definition downloadBlob :: "rg_env \<Rightarrow> Blob \<Rightarrow> string \<Rightarrow> rg_state \<Rightarrow> string \<times> rg_state" where
  "downloadBlob env b name g =
     (let url = object_url env
      in (url, g\<lparr>effects := effects g @ [Download name url, RevokeAfter 1000 url]\<rparr>))"

definition format_content :: "rg_env \<Rightarrow> jsval \<Rightarrow> ReportOptions \<Rightarrow> js_thrown + string \<times> string" where
  \<comment> \<open>the \<open>switch\<close> of \<open>generateReport\<close>: the content and its MIME type\<close>
  "format_content env data options =
     (if format options = ''json'' then Inr (generateJSON env data options, ''application/json'')
      else if format options = ''csv''
      then (case generateCSV data options of
              Inl thrown \<Rightarrow> Inl thrown | Inr text \<Rightarrow> Inr (text, ''text/csv''))
      else if format options = ''html''
      then (case generateHTML env data options of
              Inl thrown \<Rightarrow> Inl thrown | Inr text \<Rightarrow> Inr (text, ''text/html''))
      else if format options = ''txt''
      then (case generateText env data options of
              Inl thrown \<Rightarrow> Inl thrown | Inr text \<Rightarrow> Inr (text, ''text/plain''))
      else Inl (ErrorObj (''Unsupported format: '' @ format options)))"

definition generateReport_try ::
  "rg_env \<Rightarrow> jsval \<Rightarrow> ReportOptions \<Rightarrow> rg_state \<Rightarrow> (js_thrown + GeneratedReport) \<times> rg_state" where
  \<comment> \<open>the \<open>try\<close> block of \<open>generateReport\<close>\<close>
  "generateReport_try env data options g0 =
     (let g1 = g0\<lparr>rg_progress := 25\<rparr>
      in case format_content env data options of
           Inl thrown \<Rightarrow> (Inl thrown, g1)
         | Inr (text, mimeType) \<Rightarrow>
             (let g2 = g1\<lparr>rg_progress := 75\<rparr>;
                  b = \<lparr>blob_text = text, blob_type = mimeType\<rparr>;
                  name = generateFilename env options;
                  g3 = g2\<lparr>rg_progress := 90\<rparr>;
                  (url, g4) = downloadBlob env b name g3;
                  generatedReport =
                    \<lparr>blob = b, report_filename = name, report_size = blob_size b,
                     report_format = format options, downloadUrl = url\<rparr>
              in (Inr generatedReport,
                  g4\<lparr>rg_progress := 100,
                     generatedReports := generatedReports g4 @ [generatedReport]\<rparr>)))"

definition generateReport ::
  "rg_env \<Rightarrow> jsval \<Rightarrow> ReportOptions \<Rightarrow> rg_state \<Rightarrow> GeneratedReport option \<times> rg_state" where
  "generateReport env data options g0 =
     (let g1 = g0\<lparr>isGenerating := True, rg_progress := 0, rg_error := None\<rparr>;
          (outcome, g2) = generateReport_try env data options g1;
          (result, g3) =
            (case outcome of
               Inr report \<Rightarrow> (Some report, g2)
             | Inl thrown \<Rightarrow>
                 (None,
                  g2\<lparr>rg_error :=
                       Some \<lparr>re_code = ''GENERATION_ERROR'',
                             re_message = (case thrown of ErrorObj m \<Rightarrow> m
                                           | NonError \<Rightarrow> ''Report generation failed''),
                             re_details = Some thrown\<rparr>\<rparr>))
      in (result, g3\<lparr>isGenerating := False\<rparr>))"






record ReportStats =
  totalReports :: nat
  totalSize :: nat
  formatCounts :: "(string \<times> nat) list"
  averageSize :: rat

definition count_format :: "(string \<times> nat) list \<Rightarrow> string \<Rightarrow> (string \<times> nat) list" where
  \<comment> \<open>\<open>counts[format] = (counts[format] || 0) + 1\<close>\<close>
  "count_format counts f =
     (case map_of counts f of
        None \<Rightarrow> counts @ [(f, 1)]
      | Some n \<Rightarrow> map (\<lambda>(k, c). if k = f then (k, c + 1) else (k, c)) counts)"

definition getReportStats :: "rg_state \<Rightarrow> ReportStats" where
  "getReportStats g =
     (let reports = generatedReports g;
          total = foldl (\<lambda>acc report. acc + report_size report) 0 reports
      in \<lparr>totalReports = length reports,
          totalSize = total,
          formatCounts = foldl (\<lambda>counts report. count_format counts (report_format report)) [] reports,
          averageSize = (if length reports > 0 then of_nat total / of_nat (length reports) else 0)\<rparr>)"

section \<open>Notions used in the statements\<close>

fun word_starts :: "bool \<Rightarrow> string \<Rightarrow> nat" where
  \<comment> \<open>the number of places where a word starts: a character that is not white space and
      is not preceded by one; the flag says whether the text before ended inside a word\<close>
  "word_starts inWord [] = 0"
| "word_starts inWord (c # cs) =
     (if isWhiteSpace c then word_starts False cs
      else (if inWord then 0 else 1) + word_starts True cs)"

definition plain_options :: options where
  \<comment> \<open>a hook created with no options: the defaults, no callbacks\<close>
  "plain_options =
     \<lparr>validation = DEFAULT_VALIDATION, processing = DEFAULT_PROCESSING,
      onError = False, onSuccess = False\<rparr>"

definition notes_txt :: File where
  "notes_txt = \<lparr>f_name = ''notes.txt'', f_size = 11, f_type = ''text/plain'', f_lastModified = 0\<rparr>"

definition reads_hello :: host_io where
  \<comment> \<open>the reader loads the text \<open>hello world\<close>; no progress event, no abort, no digest\<close>
  "reads_hello =
     \<lparr>readProgress = [], readResult = Some ''hello world'', abortRequested = False,
      digest = (\<lambda>bytes. Inl NonError)\<rparr>"

datatype rule = MaxSize | MinSize | MimeType | Extension | CustomPredicate

definition rule_order :: "rule list" where
  \<comment> \<open>the rules in the order in which they are checked\<close>
  "rule_order = [MaxSize, MinSize, MimeType, Extension, CustomPredicate]"

definition after_last :: "char \<Rightarrow> string \<Rightarrow> string" where
  \<comment> \<open>the text after the final occurrence of the separator; the whole text when the
      separator does not occur\<close>
  "after_last sep s = rev (takeWhile (\<lambda>c. c \<noteq> sep) (rev s))"

fun violates :: "FileValidationOptions \<Rightarrow> File \<Rightarrow> rule \<Rightarrow> bool" where
  \<comment> \<open>what it means for a file to violate a rule of the rule set; a maximum of \<open>0\<close> is no
      maximum, and a custom predicate is violated when it does not return true\<close>
  "violates v f MaxSize =
     (case maxSize v of None \<Rightarrow> False | Some m \<Rightarrow> m \<noteq> 0 \<and> int (f_size f) > m)"
| "violates v f MinSize =
     (case minSize v of None \<Rightarrow> False | Some m \<Rightarrow> int (f_size f) < m)"
| "violates v f MimeType =
     (case allowedTypes v of None \<Rightarrow> False | Some ts \<Rightarrow> f_type f \<notin> set ts)"
| "violates v f Extension =
     (case allowedExtensions v of
        None \<Rightarrow> False
      | Some es \<Rightarrow> CHR ''.'' # toLowerCase (after_last CHR ''.'' (f_name f)) \<notin> set es)"
| "violates v f CustomPredicate =
     (case customValidator v of None \<Rightarrow> False | Some cv \<Rightarrow> cv f \<noteq> Inr True)"

fun rule_message :: "FileValidationOptions \<Rightarrow> File \<Rightarrow> rule \<Rightarrow> string" where
  \<comment> \<open>the message reported for a violated rule\<close>
  "rule_message v f MaxSize =
     ''File size ('' @ string_of_nat (f_size f) @ '' bytes) exceeds maximum allowed size ('' @
     (case maxSize v of None \<Rightarrow> [] | Some m \<Rightarrow> string_of_int m) @ '' bytes)''"
| "rule_message v f MinSize =
     ''File size ('' @ string_of_nat (f_size f) @ '' bytes) is below minimum required size ('' @
     (case minSize v of None \<Rightarrow> [] | Some m \<Rightarrow> string_of_int m) @ '' bytes)''"
| "rule_message v f MimeType = ''File type '' @ SQ @ f_type f @ SQ @ '' is not allowed''"
| "rule_message v f Extension =
     ''File extension '' @ SQ @ CHR ''.'' # toLowerCase (after_last CHR ''.'' (f_name f)) @ SQ @
     '' is not allowed''"
| "rule_message v f CustomPredicate =
     (case customValidator v of
        None \<Rightarrow> []
      | Some cv \<Rightarrow>
          (case cv f of
             Inl (ErrorObj m) \<Rightarrow> m
           | Inl NonError \<Rightarrow> ''Validation failed''
           | Inr ok \<Rightarrow> ''File failed custom validation''))"

definition zero_max_options :: options where
  \<comment> \<open>a hook created with \<open>validation: { maxSize: 0 }\<close>\<close>
  "zero_max_options =
     plain_options
       \<lparr>validation :=
          validationOptions
            \<lparr>given_maxSize = Some (Some 0), given_allowedTypes = None,
             given_allowedExtensions = None, given_minSize = None,
             given_customValidator = None\<rparr>\<rparr>"

definition photo_PNG :: File where
  "photo_PNG = \<lparr>f_name = ''photo.PNG'', f_size = 11, f_type = ''text/plain'', f_lastModified = 0\<rparr>"



definition sample_env :: rg_env where
  "sample_env =
     \<lparr>now_iso = ''2024-01-02T03:04:05.678Z'', now_locale = ''1/2/2024, 3:04:05 AM'',
      filename_iso = ''2024-01-02T03:04:05.679Z'', object_url = ''blob:report-1''\<rparr>"

definition options_for :: "string \<Rightarrow> ReportOptions" where
  \<comment> \<open>the options \<open>{ format }\<close>, nothing else given\<close>
  "options_for fmt =
     \<lparr>filename = None, format = fmt, metadata = None, template = None, styling = None,
      compression = None, includeTimestamp = None\<rparr>"











section \<open>Text metrics\<close>

lemma word_starts_dropWhile:
  "word_starts False (dropWhile isWhiteSpace cs) = word_starts False cs"
  by (induction cs) auto

lemma split_ws_count:
  "length (filter (\<lambda>w. w \<noteq> []) (split_ws tok cs)) =
     (if tok = [] then word_starts False cs else 1 + word_starts True cs)"
  by (induction tok cs rule: split_ws.induct) (auto simp: word_starts_dropWhile)

lemma word_starts_append_ws:
  "\<forall>c \<in> set ys. isWhiteSpace c \<Longrightarrow> word_starts b (xs @ ys) = word_starts b xs"
proof (induction xs arbitrary: b)
  case Nil
  then show ?case by (induction ys arbitrary: b) auto
next
  case (Cons x xs)
  then show ?case by auto
qed

lemma strip_trailing:
  "xs = rev (dropWhile P (rev xs)) @ rev (takeWhile P (rev xs))"
proof -
  have "rev (takeWhile P (rev xs) @ dropWhile P (rev xs)) = rev (rev xs)"
    by (simp only: takeWhile_dropWhile_id)
  then show ?thesis by (simp only: rev_append rev_rev_ident)
qed

lemma word_starts_strip_trailing:
  "word_starts b (rev (dropWhile isWhiteSpace (rev xs))) = word_starts b xs"
proof -
  have "\<forall>c \<in> set (rev (takeWhile isWhiteSpace (rev xs))). isWhiteSpace c"
    by (auto dest: set_takeWhileD)
  from word_starts_append_ws[OF this, of b "rev (dropWhile isWhiteSpace (rev xs))"]
  show ?thesis using strip_trailing[of xs isWhiteSpace] by simp
qed

lemma countWords_word_starts: "countWords text = word_starts False text"
  by (simp add: countWords_def trim_def split_ws_count word_starts_strip_trailing
      word_starts_dropWhile)

lemma split_on_not_Nil: "split_on sep cs \<noteq> []"
  by (induction cs) (auto split: list.splits)

lemma length_split_on: "length (split_on sep cs) = Suc (count_list cs sep)"
  by (induction cs) (auto split: list.splits simp: split_on_not_Nil)

section \<open>Facts about \<open>validateFile\<close> and \<open>processFile\<close>\<close>

lemma validateFile_abortController:
  "abortController (snd (validateFile opts f s)) = abortController s"
  by (simp add: validateFile_def notify_error_def split: option.splits)





lemma processFile_Some_metrics:
  "fst (processFile opts io f s) = Some p \<Longrightarrow>
     characterCount p = length (content p) \<and> wordCount p = countWords (content p) \<and>
     lineCount p = countLines (content p) \<and> readResult io = Some (content p)"
  by (auto simp: processFile_def processFile_try_def Let_def
           split: prod.splits option.splits sum.splits if_splits)

lemma validate_notes_txt: "validate_try DEFAULT_VALIDATION notes_txt = None"
  by (simp add: validate_try_def DEFAULT_VALIDATION_def notes_txt_def check_maxSize_def
        check_minSize_def check_type_def check_extension_def check_custom_def extension_of_def
        toLowerCase_def toLowerCase_char_def)

lemma countWords_hello: "countWords ''hello world'' = 2"
  by (simp add: countWords_def trim_def isWhiteSpace_def)

lemma countLines_hello: "countLines ''hello world'' = 1"
  by (simp add: countLines_def)

lemma processFile_notes_txt:
  "fst (processFile plain_options reads_hello notes_txt initial_fp) =
     Some \<lparr>content = ''hello world'', fileName = ''notes.txt'', fileSize = 11,
           fileType = ''text/plain'', lastModified = 0, characterCount = 11, wordCount = 2,
           lineCount = 1, encoding = Some ''utf-8'', checksum = None\<rparr>"
  by (simp add: processFile_def processFile_try_def validateFile_def plain_options_def
        validate_notes_txt countWords_hello countLines_hello reads_hello_def initial_fp_def
        DEFAULT_PROCESSING_def Let_def)
     (simp add: notes_txt_def)

section \<open>C3: word, line and character counts\<close>

text \<open>
  C3. \<open>countWords\<close> counts the tokens between runs of white space, empty tokens left out:
  it is the number of places where a word starts, and it is 3 on the text of two spaces,
  \<open>a\<close>, two spaces, \<open>b\<close>, a tab, \<open>c\<close> and a newline. \<open>countLines\<close> counts the segments
  between newlines, a trailing empty one included: it is one more than the number of
  newlines, 3 on \<open>a\nb\nc\<close> and 4 on \<open>a\nb\nc\n\<close>. The character count of a processed
  file is the length of its content.
\<close>

theorem text_metrics:
  "countWords (''  a  b'' @ [CHR 0x09] @ ''c'' @ NL) = 3 \<and>
   countLines (''a'' @ NL @ ''b'' @ NL @ ''c'') = 3 \<and>
   countLines (''a'' @ NL @ ''b'' @ NL @ ''c'' @ NL) = 4 \<and>
   countWords text = word_starts False text \<and>
   countLines text = Suc (count_list text (CHR 0x0A)) \<and>
   (fst (processFile opts io f s) = Some p \<longrightarrow> characterCount p = length (content p))"
proof -
  have "countWords (''  a  b'' @ [CHR 0x09] @ ''c'' @ NL) = 3"
    by (simp add: countWords_def trim_def isWhiteSpace_def NL_def)
  moreover have "countLines (''a'' @ NL @ ''b'' @ NL @ ''c'') = 3"
    by (simp add: countLines_def NL_def)
  moreover have "countLines (''a'' @ NL @ ''b'' @ NL @ ''c'' @ NL) = 4"
    by (simp add: countLines_def NL_def)
  moreover have "countLines text = Suc (count_list text (CHR 0x0A))"
    by (simp add: countLines_def length_split_on)
  ultimately show ?thesis
    using countWords_word_starts processFile_Some_metrics by blast
qed

theorem text_metrics_witness:
  "fst (processFile plain_options reads_hello notes_txt initial_fp) =
     Some \<lparr>content = ''hello world'', fileName = ''notes.txt'', fileSize = 11,
           fileType = ''text/plain'', lastModified = 0, characterCount = 11, wordCount = 2,
           lineCount = 1, encoding = Some ''utf-8'', checksum = None\<rparr> \<and>
   characterCount \<lparr>content = ''hello world'', fileName = ''notes.txt'', fileSize = 11,
           fileType = ''text/plain'', lastModified = 0, characterCount = 11, wordCount = 2,
           lineCount = 1, encoding = Some ''utf-8'', checksum = None\<rparr> = length ''hello world'' \<and>
   countWords ''hello world'' = word_starts False ''hello world''"
  using text_metrics[of "''hello world''" plain_options reads_hello notes_txt initial_fp]
    processFile_notes_txt
  by simp

section \<open>C1: the order of the validation rules\<close>

lemma split_on_single: "sep \<notin> set cs \<Longrightarrow> split_on sep cs = [cs]"
  by (induction cs) auto

lemma after_last_Cons:
  "after_last sep (c # cs) =
     (if sep \<in> set cs then after_last sep cs else if c = sep then cs else c # cs)"
  by (auto simp: after_last_def takeWhile_append)

lemma last_split_on: "last (split_on sep s) = after_last sep s"
proof (induction s)
  case Nil
  then show ?case by (simp add: after_last_def)
next
  case (Cons c cs)
  show ?case
  proof (cases "sep \<in> set cs")
    case True
    then have "length (split_on sep cs) > 1"
      using count_list_0_iff[of cs sep] by (simp add: length_split_on)
    then obtain t u ts where "split_on sep cs = t # u # ts"
      by (cases "split_on sep cs"; cases "tl (split_on sep cs)") auto
    with Cons True show ?thesis by (simp add: after_last_Cons)
  next
    case False
    then show ?thesis by (simp add: after_last_Cons split_on_single)
  qed
qed

lemma extension_of_after_last:
  "extension_of nm = CHR ''.'' # toLowerCase (after_last CHR ''.'' nm)"
  by (simp add: extension_of_def last_split_on)

lemma check_maxSize_violates:
  "check_maxSize v f = (if violates v f MaxSize then Some (rule_message v f MaxSize) else None)"
  by (simp add: check_maxSize_def split: option.splits)

lemma check_minSize_violates:
  "check_minSize v f = (if violates v f MinSize then Some (rule_message v f MinSize) else None)"
  by (auto simp: check_minSize_def split: option.splits)

lemma check_type_violates:
  "check_type v f = (if violates v f MimeType then Some (rule_message v f MimeType) else None)"
  by (simp add: check_type_def SQ_def split: option.splits)

lemma check_extension_violates:
  "check_extension v f =
     (if violates v f Extension then Some (rule_message v f Extension) else None)"
  by (simp add: check_extension_def SQ_def extension_of_after_last split: option.splits)

lemma check_custom_violates:
  "check_custom v f =
     (if violates v f CustomPredicate
      then Some (case customValidator v of
                   None \<Rightarrow> NonError
                 | Some cv \<Rightarrow>
                     (case cv f of
                        Inl t \<Rightarrow> t
                      | Inr ok \<Rightarrow> ErrorObj ''File failed custom validation''))
      else None)"
  by (auto simp: check_custom_def split: option.splits sum.splits)

lemma validate_try_first:
  "validate_try v f =
     (case find (violates v f) rule_order of
        None \<Rightarrow> None
      | Some CustomPredicate \<Rightarrow> check_custom v f
      | Some r \<Rightarrow> Some (ErrorObj (rule_message v f r)))"
  by (simp add: validate_try_def rule_order_def check_maxSize_violates check_minSize_violates
      check_type_violates check_extension_violates check_custom_violates
      del: violates.simps rule_message.simps)

lemma validateFile_first:
  "validateFile opts f s =
     (case find (violates (validation opts) f) rule_order of
        None \<Rightarrow> (True, s)
      | Some r \<Rightarrow>
          (False,
           notify_error opts
             \<lparr>fe_code = ''VALIDATION_ERROR'', fe_message = rule_message (validation opts) f r,
              fe_file = Some f, fe_details = None\<rparr> s))"
  apply (simp add: validateFile_def validate_try_first split: option.splits rule.splits
      del: violates.simps rule_message.simps)
  apply (auto simp: check_custom_violates rule_order_def
      split: option.splits sum.splits js_thrown.splits if_splits)
  done

lemma rule_message_distinct:
  "r \<noteq> r' \<Longrightarrow> (\<forall>cv t. customValidator v = Some cv \<longrightarrow> cv f \<noteq> Inl t) \<Longrightarrow>
   rule_message v f r \<noteq> rule_message v f r'"
  by (cases r; cases r') (auto simp: SQ_def split: option.splits sum.splits js_thrown.splits)

lemma find_rule_None: "find P rule_order = None \<longleftrightarrow> (\<forall>r. \<not> P r)"
proof -
  have "set rule_order = UNIV"
    using rule.exhaust by (auto simp: rule_order_def)
  then show ?thesis by (simp add: find_None_iff)
qed

lemma zero_max_validation:
  "validation zero_max_options =
     \<lparr>maxSize = Some 0,
      allowedTypes = allowedTypes DEFAULT_VALIDATION,
      allowedExtensions = allowedExtensions DEFAULT_VALIDATION,
      minSize = Some 1, customValidator = None\<rparr>"
  by (simp add: zero_max_options_def plain_options_def validationOptions_def overlay_def
      DEFAULT_VALIDATION_def)

lemma validate_zero_max: "validate_try (validation zero_max_options) notes_txt = None"
  by (simp add: zero_max_validation validate_try_def DEFAULT_VALIDATION_def notes_txt_def
      check_maxSize_def check_minSize_def check_type_def check_extension_def check_custom_def
      extension_of_def toLowerCase_def toLowerCase_char_def)

lemma extension_photo_PNG: "extension_of ''photo.PNG'' = ''.png''"
  by (simp add: extension_of_def toLowerCase_def toLowerCase_char_def char_of_def bit_iff_odd)

lemma find_photo_PNG:
  "find (violates (validation plain_options) photo_PNG) rule_order = Some Extension"
  using extension_photo_PNG
  by (simp add: rule_order_def plain_options_def DEFAULT_VALIDATION_def photo_PNG_def
      extension_of_after_last)

lemma find_notes_txt: "find (violates (validation plain_options) notes_txt) rule_order = None"
  by (simp add: rule_order_def plain_options_def DEFAULT_VALIDATION_def notes_txt_def
      after_last_def toLowerCase_def toLowerCase_char_def)

text \<open>
  C1, as the claim states it, fails where the configured maximum is \<open>0\<close>: the hook created
  with \<open>maxSize: 0\<close> and the other defaults accepts an 11-byte file, whose size exceeds
  the maximum. The test \<open>validationOptions.maxSize && ...\<close> skips a bound of \<open>0\<close>.
\<close>

theorem validateFile_zero_maxSize_counterexample:
  "maxSize (validation zero_max_options) = Some 0 \<and>
   int (f_size notes_txt) > 0 \<and>
   validateFile zero_max_options notes_txt initial_fp = (True, initial_fp)"
  by (simp add: validateFile_def validate_zero_max) (simp add: zero_max_validation notes_txt_def)

text \<open>
  C1, amended. \<open>validateFile\<close> checks the rules in the order max-size, min-size, MIME
  type, extension, custom predicate, where a maximum of \<open>0\<close> counts as not configured and
  the extension is \<open>.\<close> followed by the lower-cased text after the final \<open>.\<close> of the name
  (the whole name when it has no \<open>.\<close>). A file that violates no rule validates and the state
  is unchanged. Otherwise validation fails, and the first violated rule in that order
  decides the error: its code is \<open>VALIDATION_ERROR\<close>, it carries the file, and its message
  is the message of that rule; the error is stored in the error slot and passed to
  \<open>onError\<close> when that callback is supplied. Unless the custom predicate throws, the
  messages of different rules differ.
\<close>

theorem validateFile_rules:
  "extension_of nm = CHR ''.'' # toLowerCase (after_last CHR ''.'' nm) \<and>
   ((\<forall>r. \<not> violates (validation opts) f r) \<longrightarrow> validateFile opts f s = (True, s)) \<and>
   (find (violates (validation opts) f) rule_order = Some r \<longrightarrow>
      fst (validateFile opts f s) = False \<and>
      error (snd (validateFile opts f s)) =
        Some \<lparr>fe_code = ''VALIDATION_ERROR'', fe_message = rule_message (validation opts) f r,
              fe_file = Some f, fe_details = None\<rparr> \<and>
      (onError opts \<longrightarrow>
         calls (snd (validateFile opts f s)) =
           calls s @ [OnError \<lparr>fe_code = ''VALIDATION_ERROR'',
                              fe_message = rule_message (validation opts) f r,
                              fe_file = Some f, fe_details = None\<rparr>])) \<and>
   ((\<forall>cv t. customValidator (validation opts) = Some cv \<longrightarrow> cv f \<noteq> Inl t) \<longrightarrow> r \<noteq> r' \<longrightarrow>
      rule_message (validation opts) f r \<noteq> rule_message (validation opts) f r')"
proof -
  have "(\<forall>r. \<not> violates (validation opts) f r) \<longrightarrow> validateFile opts f s = (True, s)"
  proof
    assume "\<forall>r. \<not> violates (validation opts) f r"
    then have "find (violates (validation opts) f) rule_order = None"
      by (simp add: find_rule_None)
    then show "validateFile opts f s = (True, s)"
      by (simp add: validateFile_first)
  qed
  moreover have "find (violates (validation opts) f) rule_order = Some r \<longrightarrow>
      fst (validateFile opts f s) = False \<and>
      error (snd (validateFile opts f s)) =
        Some \<lparr>fe_code = ''VALIDATION_ERROR'', fe_message = rule_message (validation opts) f r,
              fe_file = Some f, fe_details = None\<rparr> \<and>
      (onError opts \<longrightarrow>
         calls (snd (validateFile opts f s)) =
           calls s @ [OnError \<lparr>fe_code = ''VALIDATION_ERROR'',
                              fe_message = rule_message (validation opts) f r,
                              fe_file = Some f, fe_details = None\<rparr>])"
    by (simp add: validateFile_first notify_error_def)
  ultimately show ?thesis
    using extension_of_after_last rule_message_distinct by blast
qed

theorem validateFile_rules_witness:
  "validateFile plain_options notes_txt initial_fp = (True, initial_fp) \<and>
   fst (validateFile plain_options photo_PNG initial_fp) = False \<and>
   error (snd (validateFile plain_options photo_PNG initial_fp)) =
     Some \<lparr>fe_code = ''VALIDATION_ERROR'',
           fe_message = ''File extension '' @ SQ @ ''.png'' @ SQ @ '' is not allowed'',
           fe_file = Some photo_PNG, fe_details = None\<rparr> \<and>
   rule_message (validation plain_options) photo_PNG MaxSize \<noteq>
   rule_message (validation plain_options) photo_PNG MinSize"
proof -
  have none: "\<forall>r. \<not> violates (validation plain_options) notes_txt r"
    using find_notes_txt find_rule_None[of "violates (validation plain_options) notes_txt"]
    by simp
  have msg: "rule_message (validation plain_options) photo_PNG Extension =
      ''File extension '' @ SQ @ ''.png'' @ SQ @ '' is not allowed''"
    using extension_photo_PNG by (simp add: photo_PNG_def extension_of_after_last)
  have nothrow: "\<forall>cv t. customValidator (validation plain_options) = Some cv \<longrightarrow>
      cv photo_PNG \<noteq> Inl t"
    by (simp add: plain_options_def DEFAULT_VALIDATION_def)
  show ?thesis
    using validateFile_rules[of "''photo.PNG''" plain_options notes_txt initial_fp Extension MaxSize]
      validateFile_rules[of "''photo.PNG''" plain_options photo_PNG initial_fp Extension MinSize]
      validateFile_rules[of "''photo.PNG''" plain_options photo_PNG initial_fp MaxSize MinSize]
      none find_photo_PNG msg nothrow
    by simp
qed


section \<open>C2: sequential batch processing\<close>













section \<open>C7: unsupported formats\<close>

lemma format_content_unsupported:
  "format options \<notin> {''json'', ''csv'', ''html'', ''txt''} \<Longrightarrow>
   format_content env data options = Inl (ErrorObj (''Unsupported format: '' @ format options))"
  by (simp add: format_content_def)

text \<open>
  C7. For a format tag other than \<open>json\<close>, \<open>csv\<close>, \<open>html\<close> and \<open>txt\<close>, \<open>generateReport\<close>
  returns \<open>null\<close>; the error slot holds an error of code \<open>GENERATION_ERROR\<close> whose message
  is \<open>Unsupported format: \<close> followed by the tag; the registry and the host are untouched
  (of the state, only the busy flag, the progress and the error slot are written).
\<close>

theorem generateReport_unsupported_format:
  "format options \<notin> {''json'', ''csv'', ''html'', ''txt''} \<Longrightarrow>
   generateReport env data options g =
     (None,
      g\<lparr>isGenerating := False, rg_progress := 25,
        rg_error := Some \<lparr>re_code = ''GENERATION_ERROR'',
                          re_message = ''Unsupported format: '' @ format options,
                          re_details = Some (ErrorObj (''Unsupported format: '' @ format options))\<rparr>\<rparr>) \<and>
   generatedReports (snd (generateReport env data options g)) = generatedReports g \<and>
   effects (snd (generateReport env data options g)) = effects g"
  by (simp add: generateReport_def generateReport_try_def format_content_unsupported)

theorem generateReport_unsupported_format_witness:
  "format (options_for ''pdf'') \<notin> {''json'', ''csv'', ''html'', ''txt''} \<and>
   generateReport sample_env (JArr []) (options_for ''pdf'') initial_rg =
     (None,
      initial_rg\<lparr>isGenerating := False, rg_progress := 25,
        rg_error := Some \<lparr>re_code = ''GENERATION_ERROR'',
                          re_message = ''Unsupported format: pdf'',
                          re_details = Some (ErrorObj ''Unsupported format: pdf'')\<rparr>\<rparr>) \<and>
   generatedReports (snd (generateReport sample_env (JArr []) (options_for ''pdf'') initial_rg)) = []"
proof -
  have fmt: "format (options_for ''pdf'') \<notin> {''json'', ''csv'', ''html'', ''txt''}"
    by (simp add: options_for_def)
  show ?thesis
    using fmt generateReport_unsupported_format[OF fmt, of sample_env "JArr []" initial_rg]
    by (simp add: options_for_def initial_rg_def)
qed

section \<open>C9: clearing the registry\<close>


section \<open>C10: CSV of data that is not a non-empty array\<close>

lemma generateCSV_not_rows:
  "(\<forall>items. data \<noteq> JArr items) \<or> data = JArr [] \<Longrightarrow> generateCSV data options = Inr []"
  by (cases data) (auto simp: generateCSV_def)

lemma utf8_encode_Nil: "utf8_encode [] = []"
  by (simp add: utf8_encode_def)

text \<open>
  C10. For data that is not an array, and for the empty array, \<open>generateCSV\<close> returns the
  empty string, with no header row; \<open>generateReport\<close> with the format \<open>csv\<close> then succeeds:
  it returns a report whose payload is empty (size \<open>0\<close>, type \<open>text/csv\<close>), appends it to
  the registry and leaves the error slot empty.
\<close>

theorem generateCSV_empty_payload:
  "(\<forall>items. data \<noteq> JArr items) \<or> data = JArr [] \<Longrightarrow>
   generateCSV data options = Inr [] \<and>
   (format options = ''csv'' \<longrightarrow>
      fst (generateReport env data options g) =
        Some \<lparr>blob = \<lparr>blob_text = [], blob_type = ''text/csv''\<rparr>,
              report_filename = generateFilename env options, report_size = 0,
              report_format = ''csv'', downloadUrl = object_url env\<rparr> \<and>
      rg_error (snd (generateReport env data options g)) = None \<and>
      generatedReports (snd (generateReport env data options g)) =
        generatedReports g @
        [\<lparr>blob = \<lparr>blob_text = [], blob_type = ''text/csv''\<rparr>,
          report_filename = generateFilename env options, report_size = 0,
          report_format = ''csv'', downloadUrl = object_url env\<rparr>])"
proof -
  assume a: "(\<forall>items. data \<noteq> JArr items) \<or> data = JArr []"
  then have csv: "generateCSV data options = Inr []" by (rule generateCSV_not_rows)
  then have "format options = ''csv'' \<longrightarrow>
      format_content env data options = Inr ([], ''text/csv'')"
    by (simp add: format_content_def)
  then show ?thesis
    using csv
    by (simp add: generateReport_def generateReport_try_def downloadBlob_def Let_def
        blob_size_def utf8_encode_Nil)
qed

theorem generateCSV_empty_payload_witness:
  "generateCSV (JObj [(''a'', JNum 1)]) (options_for ''csv'') = Inr [] \<and>
   generateCSV (JArr []) (options_for ''csv'') = Inr [] \<and>
   fst (generateReport sample_env (JArr []) (options_for ''csv'') initial_rg) =
     Some \<lparr>blob = \<lparr>blob_text = [], blob_type = ''text/csv''\<rparr>,
           report_filename = ''report_2024-01-02T03-04-05.csv'', report_size = 0,
           report_format = ''csv'', downloadUrl = ''blob:report-1''\<rparr> \<and>
   rg_error (snd (generateReport sample_env (JArr []) (options_for ''csv'') initial_rg)) = None"
proof -
  have name: "generateFilename sample_env (options_for ''csv'') = ''report_2024-01-02T03-04-05.csv''"
    by (simp add: generateFilename_def sample_env_def options_for_def)
  have f: "format (options_for ''csv'') = ''csv''" by (simp add: options_for_def)
  have u: "object_url sample_env = ''blob:report-1''" by (simp add: sample_env_def)
  have a1: "(\<forall>items. JObj [(''a'', JNum 1)] \<noteq> JArr items) \<or> JObj [(''a'', JNum 1)] = JArr []"
    by simp
  have a2: "(\<forall>items. JArr [] \<noteq> JArr items) \<or> JArr [] = JArr []" by simp
  show ?thesis
    using generateCSV_empty_payload[OF a1, of "options_for ''csv''" sample_env initial_rg]
      generateCSV_empty_payload[OF a2, of "options_for ''csv''" sample_env initial_rg]
      name f u
    by simp
qed


section \<open>C6 and C8: failures and the two lists\<close>




























section \<open>C4: CSV of an array of records\<close>














end
